theory Spec2Isabelle
  imports Main "HOL-Library.Word"
begin

section \<open>JavaScript values used by the notebook panel\<close>

text \<open>
  The panel (\<^verbatim>\<open>src/notebook/panel.ts\<close>) and the widget factory
  (\<^verbatim>\<open>src/notebook/widgetfactory.ts\<close>) are event handlers over mutable objects.
  Each handler is embedded as a function from the state before the call to the state
  after it, together with the calls it makes on its collaborators (an effect trace) and
  the exception it raises, if any.

  Editor buffers are JavaScript strings: sequences of 16-bit code units. Numbers that
  index them (\<^verbatim>\<open>line\<close>, \<^verbatim>\<open>ch\<close>) are integers; an index outside the sequence reads
  \<^verbatim>\<open>undefined\<close>, which is \<open>None\<close> here. Property access on \<^verbatim>\<open>null\<close> or
  \<^verbatim>\<open>undefined\<close> raises \<^verbatim>\<open>TypeError\<close>.
\<close>

type_synonym js_string = "16 word list"

datatype error = TypeError

definition js_index :: "'a list \<Rightarrow> int \<Rightarrow> 'a option" where
  \<comment> \<open>\<^verbatim>\<open>xs[i]\<close> for an array or a string: \<^verbatim>\<open>undefined\<close> outside \<open>0 .. length - 1\<close>.\<close>
  "js_index xs i = (if 0 \<le> i \<and> i < int (length xs) then Some (xs ! nat i) else None)"

fun js_split :: "16 word \<Rightarrow> js_string \<Rightarrow> js_string list" where
  \<comment> \<open>\<^verbatim>\<open>s.split(sep)\<close> for a separator of one code unit.\<close>
  "js_split sep [] = [[]]"
| "js_split sep (c # cs) =
     (if c = sep then [] # js_split sep cs
      else (case js_split sep cs of
              [] \<Rightarrow> [[c]]
            | l # ls \<Rightarrow> (c # l) # ls))"

definition newline :: "16 word" where
  "newline = 0x0A"

definition is_whitespace :: "16 word \<Rightarrow> bool" where
  \<comment> \<open>The code units that the regular expression class \<^verbatim>\<open>\s\<close> matches
      (ECMAScript WhiteSpace and LineTerminator); \<^verbatim>\<open>\S\<close> matches every other one.\<close>
  "is_whitespace c \<longleftrightarrow>
     c = 0x09 \<or> c = 0x0A \<or> c = 0x0B \<or> c = 0x0C \<or> c = 0x0D \<or> c = 0x20 \<or>
     c = 0xA0 \<or> c = 0x1680 \<or> (0x2000 \<le> c \<and> c \<le> 0x200A) \<or>
     c = 0x2028 \<or> c = 0x2029 \<or> c = 0x202F \<or> c = 0x205F \<or> c = 0x3000 \<or>
     c = 0xFEFF"

section \<open>Editor events and the completion model\<close>

text \<open>
  \<^verbatim>\<open>ITextChange\<close> and \<^verbatim>\<open>ICompletionRequest\<close> both extend the editor state
  (cursor line and column); the first carries the new buffer, the second the current one.
\<close>

record editor_state =
  line :: int
  ch :: int

record text_change = editor_state +
  newValue :: js_string

record completion_request = editor_state +
  currentValue :: js_string

record cursor_span =
  span_start :: int
  span_end :: int

text \<open>
  Modelled from the spec: the class \<^verbatim>\<open>CompletionModel\<close> of \<^verbatim>\<open>../completion\<close> is not
  among the sources. Its properties \<^verbatim>\<open>options\<close>, \<^verbatim>\<open>original\<close>, \<^verbatim>\<open>current\<close> and
  \<^verbatim>\<open>cursor\<close> are the four fields of the specification's CompletionState, each either
  absent or holding the assigned value; \<^verbatim>\<open>isDisposed\<close> is set once the model is torn
  down. The panel reaches the model through its completion widget.
\<close>

record completion_model =
  options :: "js_string list option"
  original :: "completion_request option"
  current :: "text_change option"
  cursor :: "cursor_span option"
  isDisposed :: bool

record completion_widget =
  model :: completion_model

section \<open>Kernel, document context and notebook model\<close>

record kernel =
  kernel_name :: string

record complete_request =
  code :: "js_string option"
  cursor_pos :: int

record complete_reply =
  status :: string
  matches :: "js_string list"
  cursor_start :: int
  cursor_end :: int

type_synonym json_object = "(string \<times> string) list"

record kernel_info =
  language_info :: json_object

record kernel_spec =
  display_name :: string
  language :: string

record kernel_id =
  id_of :: "string option"
  name_of :: "string option"

type_synonym kernelspecs = "(string \<times> kernel_spec) list"

record document_context =
  kernel :: "kernel option"
  kernelspecs :: kernelspecs

datatype metadata_value =
    LanguageInfo json_object
  | KernelSpec string string string

text \<open>
  A cell's metadata cursor for \<^verbatim>\<open>'trusted'\<close> holds a boolean or nothing; a cursor
  of the notebook holds one of the two values the panel writes.
\<close>

record cell_model =
  cell_metadata :: "string \<rightharpoonup> bool"

record notebook_model =
  metadata :: "string \<rightharpoonup> metadata_value"
  cells :: "cell_model list"
  defaultKernelName :: string
  defaultKernelLanguage :: string

section \<open>The content widget and the panel\<close>

text \<open>
  Modelled from the spec: the class \<^verbatim>\<open>ActiveNotebook\<close> of \<^verbatim>\<open>./widget\<close> is not among
  the sources. It exposes \<^verbatim>\<open>activeCellIndex\<close> and \<^verbatim>\<open>childAt(index)\<close>, which returns
  the cell at that index or nothing when the index is out of range. Every cell has an
  editor, identified here by a number, with the two signals \<^verbatim>\<open>textChanged\<close> and
  \<^verbatim>\<open>completionRequested\<close>.
\<close>

record cell_widget =
  editor :: nat

record active_notebook =
  children :: "cell_widget list"
  activeCellIndex :: int

definition childAt :: "active_notebook \<Rightarrow> int \<Rightarrow> cell_widget option" where
  "childAt content i = js_index (children content) i"

datatype rendermime = RenderMime nat
datatype clipboard = MimeData nat
datatype toolbar = NotebookToolbar

record changed_args =
  args_name :: string
  args_oldValue :: int
  args_newValue :: int

datatype editor_signal = TextChanged | CompletionRequested

datatype slot = OnTextChange | OnCompletionRequest

text \<open>
  The calls a handler makes on its collaborators, in the order it makes them. A dialog
  is recorded by its title.
\<close>

datatype effect =
    Connect nat editor_signal slot
  | Disconnect nat editor_signal slot
  | ShowDialog string
  | KernelRestart kernel
  | KernelComplete kernel complete_request
  | KernelInfo kernel
  | GetKernelSpec kernel
  | CompletionDispose

text \<open>
  The private fields of \<^verbatim>\<open>NotebookPanel\<close>; a reference that is \<^verbatim>\<open>null\<close> is
  \<open>None\<close>. \<open>p_isDisposed\<close> is the flag behind the inherited \<^verbatim>\<open>isDisposed\<close> getter,
  which the inherited \<^verbatim>\<open>dispose\<close> of the widget library sets.
\<close>

record notebook_panel =
  p_rendermime :: "rendermime option"
  p_context :: "document_context option"
  p_model :: "notebook_model option"
  p_content :: "active_notebook option"
  p_toolbar :: "toolbar option"
  p_clipboard :: "clipboard option"
  p_completion :: "completion_widget option"
  p_pendingComplete :: nat
  p_isDisposed :: bool

subsection \<open>Construction\<close>

definition handleKernelChange :: "kernel \<Rightarrow> effect list" where
  \<comment> \<open>Issues the two kernel queries; the metadata is written when they are answered.\<close>
  "handleKernelChange k = [KernelInfo k, GetKernelSpec k]"

definition kernelChanged_slot :: "document_context \<Rightarrow> error + effect list" where
  \<comment> \<open>The listener the constructor connects to \<^verbatim>\<open>context.kernelChanged\<close>: it passes
      \<^verbatim>\<open>context.kernel\<close> on unchecked.\<close>
  "kernelChanged_slot context =
     (case kernel context of
        None \<Rightarrow> Inl TypeError
      | Some k \<Rightarrow> Inr (handleKernelChange k))"

definition empty_completion_model :: completion_model where
  "empty_completion_model =
     \<lparr>options = None, original = None, current = None, cursor = None, isDisposed = False\<rparr>"

definition createCompletion :: completion_widget where
  "createCompletion = \<lparr>model = empty_completion_model\<rparr>"

definition new_NotebookPanel ::
  "notebook_model \<Rightarrow> rendermime \<Rightarrow> document_context \<Rightarrow> clipboard option \<Rightarrow> active_notebook
     \<Rightarrow> notebook_panel \<times> effect list" where
  \<comment> \<open>The constructor, for the content widget that \<^verbatim>\<open>createContent\<close> returns. The trace
      holds the kernel queries and the editor connections; title and dirty-flag
      listeners touch nothing that is modelled here.\<close>
  "new_NotebookPanel m rm context cb content =
     (\<lparr>p_rendermime = Some rm, p_context = Some context, p_model = Some m,
       p_content = Some content, p_toolbar = Some NotebookToolbar, p_clipboard = cb,
       p_completion = Some createCompletion, p_pendingComplete = 0, p_isDisposed = False\<rparr>,
      (case kernel context of
         None \<Rightarrow> []
       | Some k \<Rightarrow> handleKernelChange k) @
      (case childAt content (activeCellIndex content) of
         None \<Rightarrow> []
       | Some cell \<Rightarrow>
           [Connect (editor cell) TextChanged OnTextChange,
            Connect (editor cell) CompletionRequested OnCompletionRequest]))"

subsection \<open>Disposal and restart\<close>

definition dispose :: "notebook_panel \<Rightarrow> notebook_panel \<times> effect list \<times> error option" where
  \<comment> \<open>The last step is the inherited \<^verbatim>\<open>dispose\<close>, which sets the disposed flag.\<close>
  "dispose p =
     (if p_isDisposed p then (p, [], None)
      else
        let p1 = p\<lparr>p_context := None, p_rendermime := None, p_content := None,
                   p_toolbar := None, p_clipboard := None\<rparr>
        in (case p_completion p1 of
              None \<Rightarrow> (p1, [], Some TypeError)
            | Some w \<Rightarrow>
                (p1\<lparr>p_completion := None, p_isDisposed := True\<rparr>, [CompletionDispose], None)))"

definition restart :: "notebook_panel \<Rightarrow> string \<Rightarrow> error + (bool \<times> effect list)" where
  \<comment> \<open>\<open>answer\<close> is the text of the result the dialog resolves with; the value is what
      the returned promise resolves to.\<close>
  "restart p answer =
     (case p_context p of
        None \<Rightarrow> Inl TypeError
      | Some context \<Rightarrow>
          (case kernel context of
             None \<Rightarrow> Inr (False, [])
           | Some k \<Rightarrow>
               if answer = ''OK''
               then Inr (True, [ShowDialog ''Restart Kernel?'', KernelRestart k])
               else Inr (False, [ShowDialog ''Restart Kernel?''])))"

subsection \<open>Kernel metadata\<close>

definition kernelInfo_then :: "notebook_panel \<Rightarrow> kernel_info \<Rightarrow> error + notebook_panel" where
  \<comment> \<open>The callback of \<^verbatim>\<open>kernel.kernelInfo()\<close>.\<close>
  "kernelInfo_then p info =
     (case p_model p of
        None \<Rightarrow> Inl TypeError
      | Some m \<Rightarrow>
          Inr (p\<lparr>p_model := Some (m\<lparr>metadata :=
                 (metadata m)(''language_info'' \<mapsto> LanguageInfo (language_info info))\<rparr>)\<rparr>))"

definition getKernelSpec_then ::
  "notebook_panel \<Rightarrow> kernel \<Rightarrow> kernel_spec \<Rightarrow> error + notebook_panel" where
  \<comment> \<open>The callback of \<^verbatim>\<open>kernel.getKernelSpec()\<close>, for the kernel that was queried.\<close>
  "getKernelSpec_then p k spec =
     (case p_model p of
        None \<Rightarrow> Inl TypeError
      | Some m \<Rightarrow>
          Inr (p\<lparr>p_model := Some (m\<lparr>metadata :=
                 (metadata m)(''kernelspec'' \<mapsto>
                    KernelSpec (kernel_name k) (display_name spec) (language spec))\<rparr>)\<rparr>))"

subsection \<open>Rebinding the active cell\<close>

definition onContentChanged :: "notebook_panel \<Rightarrow> changed_args \<Rightarrow> effect list \<times> error option" where
  \<comment> \<open>The signal operations made, and the exception that ended the handler, if any.\<close>
  "onContentChanged p args =
     (if args_name args = ''activeCellIndex'' then
        (case p_content p of
           None \<Rightarrow> ([], Some TypeError)
         | Some content \<Rightarrow>
             (case childAt content (args_oldValue args) of
                None \<Rightarrow> ([], Some TypeError)
              | Some cell \<Rightarrow>
                  let off = [Disconnect (editor cell) TextChanged OnTextChange,
                             Disconnect (editor cell) CompletionRequested OnCompletionRequest]
                  in (case childAt content (args_newValue args) of
                        None \<Rightarrow> (off, Some TypeError)
                      | Some cell' \<Rightarrow>
                          (off @ [Connect (editor cell') TextChanged OnTextChange,
                                  Connect (editor cell') CompletionRequested OnCompletionRequest],
                           None))))
      else ([], None))"

subsection \<open>Text changes and completion requests\<close>

definition reset_completion :: "completion_model \<Rightarrow> completion_model" where
  \<comment> \<open>The three assignments of the whitespace branch.\<close>
  "reset_completion m = m\<lparr>options := None, original := None, cursor := None\<rparr>"

definition onTextChange ::
  "notebook_panel \<Rightarrow> text_change \<Rightarrow> error + (notebook_panel \<times> effect list)" where
  \<comment> \<open>The panel afterwards and the calls made (the handler makes none).\<close>
  "onTextChange p chg =
     (let ln = js_index (js_split newline (newValue chg)) (line chg)
      in (case p_completion p of
            None \<Rightarrow> Inl TypeError
          | Some w \<Rightarrow>
              (case ln of
                 None \<Rightarrow> Inl TypeError
               | Some l \<Rightarrow>
                   (case js_index l (ch chg - 1) of
                      None \<Rightarrow>
                        Inr (p\<lparr>p_completion := Some (w\<lparr>model := reset_completion (model w)\<rparr>)\<rparr>, [])
                    | Some c \<Rightarrow>
                        if \<not> is_whitespace c then
                          (if original (model w) \<noteq> None
                           then Inr (p\<lparr>p_completion :=
                                        Some (w\<lparr>model := (model w)\<lparr>current := Some chg\<rparr>\<rparr>)\<rparr>, [])
                           else Inr (p, []))
                        else
                          Inr (p\<lparr>p_completion :=
                                  Some (w\<lparr>model := reset_completion (model w)\<rparr>)\<rparr>, [])))))"

text \<open>
  What the closure passed to \<^verbatim>\<open>kernel.complete(...).then\<close> captures: the token and the
  originating change. It also captures the completion model by reference.
\<close>

record pending_completion =
  pendingComplete :: nat
  change :: completion_request

definition onCompletionRequest ::
  "notebook_panel \<Rightarrow> completion_request
     \<Rightarrow> notebook_panel \<times> effect list \<times> (error + pending_completion option)" where
  \<comment> \<open>The panel afterwards, the kernel call made, and the closure awaiting the reply
      (none when the handler returns early). The counter is a JavaScript number, exact
      far beyond any count of requests, so it is a natural number here.\<close>
  "onCompletionRequest p chg =
     (case p_context p of
        None \<Rightarrow> (p, [], Inl TypeError)
      | Some context \<Rightarrow>
          (case kernel context of
             None \<Rightarrow> (p, [], Inr None)
           | Some k \<Rightarrow>
               let contents = \<lparr>code = js_index (js_split newline (currentValue chg)) (line chg),
                               cursor_pos = ch chg\<rparr>;
                   token = p_pendingComplete p + 1;
                   p' = p\<lparr>p_pendingComplete := token\<rparr>
               in (case p_completion p' of
                     None \<Rightarrow> (p', [], Inl TypeError)
                   | Some w \<Rightarrow>
                       (p', [KernelComplete k contents],
                        Inr (Some \<lparr>pendingComplete = token, change = chg\<rparr>)))))"

definition complete_then1 ::
  "nat \<Rightarrow> pending_completion \<Rightarrow> complete_reply \<Rightarrow> completion_model \<Rightarrow> completion_model" where
  \<comment> \<open>The first callback, run on the captured model; \<open>now\<close> is the panel's
      \<^verbatim>\<open>_pendingComplete\<close> when the reply arrives.\<close>
  "complete_then1 now pc value m =
     (if isDisposed m then m
      else if pendingComplete pc \<noteq> now then m
      else if status value \<noteq> ''ok'' then m
      else m\<lparr>options := Some (matches value),
             cursor := Some \<lparr>span_start = cursor_start value, span_end = cursor_end value\<rparr>\<rparr>)"

definition complete_then2 :: "pending_completion \<Rightarrow> completion_model \<Rightarrow> completion_model" where
  \<comment> \<open>The second callback, chained on the first: it runs whenever the first returns.\<close>
  "complete_then2 pc m = m\<lparr>original := Some (change pc)\<rparr>"

definition complete_reply_handler ::
  "nat \<Rightarrow> pending_completion \<Rightarrow> complete_reply \<Rightarrow> completion_model \<Rightarrow> completion_model" where
  "complete_reply_handler now pc value m = complete_then2 pc (complete_then1 now pc value m)"

definition onCompletionReply ::
  "notebook_panel \<Rightarrow> pending_completion \<Rightarrow> complete_reply \<Rightarrow> notebook_panel" where
  \<comment> \<open>The reply handled on a panel whose completion widget still holds the captured
      model.\<close>
  "onCompletionReply p pc value =
     (case p_completion p of
        None \<Rightarrow> p
      | Some w \<Rightarrow>
          p\<lparr>p_completion :=
              Some (w\<lparr>model := complete_reply_handler (p_pendingComplete p) pc value (model w)\<rparr>)\<rparr>)"

section \<open>Trusting a notebook\<close>

fun scan_trusted :: "bool \<Rightarrow> cell_model list \<Rightarrow> bool" where
  \<comment> \<open>The first loop: \<open>trusted\<close> starts true and is cleared at every cell whose flag is
      not set.\<close>
  "scan_trusted trusted [] = trusted"
| "scan_trusted trusted (cell # rest) =
     scan_trusted (if cell_metadata cell ''trusted'' \<noteq> Some True then False else trusted) rest"

fun trust_cells :: "cell_model list \<Rightarrow> cell_model list" where
  \<comment> \<open>The second loop: every cell's flag is set.\<close>
  "trust_cells [] = []"
| "trust_cells (cell # rest) =
     cell\<lparr>cell_metadata := (cell_metadata cell)(''trusted'' \<mapsto> True)\<rparr> # trust_cells rest"

definition trustNotebook :: "notebook_model \<Rightarrow> string \<Rightarrow> notebook_model \<times> effect list" where
  \<comment> \<open>\<open>answer\<close> is the text of the result the dialog resolves with.\<close>
  "trustNotebook m answer =
     (if scan_trusted True (cells m) then (m, [])
      else (if answer = ''OK'' then m\<lparr>cells := trust_cells (cells m)\<rparr> else m,
            [ShowDialog ''Trust this notebook?'']))"

section \<open>The widget factory\<close>

record notebook_widget_factory =
  f_rendermime :: "rendermime option"
  f_clipboard :: "clipboard option"

datatype factory_effect =
    RendermimeClone
  | ChangeKernel kernel_id
  | Construct "effect list"
  | PopulateDefaults

definition createNew ::
  "notebook_widget_factory \<Rightarrow> (string \<Rightarrow> string \<Rightarrow> kernelspecs \<Rightarrow> string) \<Rightarrow> active_notebook
     \<Rightarrow> notebook_model \<Rightarrow> document_context \<Rightarrow> kernel_id option
     \<Rightarrow> error + (notebook_panel \<times> factory_effect list)" where
  \<comment> \<open>\<open>findKernel\<close> is the imported lookup and \<open>content\<close> the content widget the panel
      creates; \<open>Construct\<close> marks the constructor call and holds what it does.\<close>
  "createNew f findKernel content m context k =
     (case f_rendermime f of
        None \<Rightarrow> Inl TypeError
      | Some rm \<Rightarrow>
          let arg = (case k of
                       Some kid \<Rightarrow> kid
                     | None \<Rightarrow>
                         \<lparr>id_of = None,
                          name_of = Some (findKernel (defaultKernelName m)
                                            (defaultKernelLanguage m) (kernelspecs context))\<rparr>);
              (panel, made) = new_NotebookPanel m rm context (f_clipboard f) content
          in Inr (panel, [RendermimeClone, ChangeKernel arg, Construct made, PopulateDefaults]))"

definition beforeClose ::
  "notebook_model \<Rightarrow> document_context \<Rightarrow> notebook_panel \<Rightarrow> bool \<times> factory_effect list" where
  \<comment> \<open>The value the returned promise resolves to, and the calls made.\<close>
  "beforeClose m context widget = (True, [])"

section \<open>Traces, runs and dropped replies\<close>

definition dialogs :: "effect list \<Rightarrow> effect list" where
  "dialogs tr = filter (\<lambda>e. case e of ShowDialog t \<Rightarrow> True | _ \<Rightarrow> False) tr"

definition kernel_restarts :: "effect list \<Rightarrow> effect list" where
  "kernel_restarts tr = filter (\<lambda>e. case e of KernelRestart k \<Rightarrow> True | _ \<Rightarrow> False) tr"

fun js_join :: "16 word \<Rightarrow> js_string list \<Rightarrow> js_string" where
  \<comment> \<open>\<^verbatim>\<open>lines.join(sep)\<close>, the inverse that \<open>js_split\<close> is checked against.\<close>
  "js_join sep [] = []"
| "js_join sep [l] = l"
| "js_join sep (l # ls) = l @ sep # js_join sep ls"

text \<open>
  A run of completion requests issued one after another, none answered yet, with the
  tokens their closures capture.
\<close>

fun issue_requests :: "notebook_panel \<Rightarrow> completion_request list \<Rightarrow> notebook_panel \<times> nat list" where
  "issue_requests p [] = (p, [])"
| "issue_requests p (chg # rest) =
     (case onCompletionRequest p chg of
        (p', tr, res) \<Rightarrow>
          (case issue_requests p' rest of
             (p'', tokens) \<Rightarrow>
               (p'', (case res of Inr (Some pc) \<Rightarrow> [pendingComplete pc] | _ \<Rightarrow> []) @ tokens)))"

definition panel_metadata :: "notebook_panel \<Rightarrow> string \<Rightarrow> metadata_value option" where
  "panel_metadata p key = (case p_model p of None \<Rightarrow> None | Some m \<Rightarrow> metadata m key)"

definition kernel_changes :: "factory_effect list \<Rightarrow> factory_effect list" where
  "kernel_changes tr = filter (\<lambda>e. case e of ChangeKernel k \<Rightarrow> True | _ \<Rightarrow> False) tr"

definition before_construct :: "factory_effect list \<Rightarrow> factory_effect list" where
  "before_construct tr = takeWhile (\<lambda>e. case e of Construct made \<Rightarrow> False | _ \<Rightarrow> True) tr"

definition discarded :: "nat \<Rightarrow> pending_completion \<Rightarrow> complete_reply \<Rightarrow> completion_model \<Rightarrow> bool" where
  \<comment> \<open>The three tests under which the first callback bails.\<close>
  "discarded now pc value m \<longleftrightarrow>
     isDisposed m \<or> pendingComplete pc \<noteq> now \<or> status value \<noteq> ''ok''"

section \<open>Concrete states\<close>

text \<open>
  A small notebook with a running kernel, two cells (the first one trusted) and the
  panel constructed for it. The closed theorems below evaluate the handlers on these.
\<close>

definition example_kernel :: kernel where
  "example_kernel = \<lparr>kernel_name = ''python3''\<rparr>"

definition example_context :: document_context where
  "example_context =
     \<lparr>kernel = Some example_kernel,
      kernelspecs = [(''python3'', \<lparr>display_name = ''Python 3'', language = ''python''\<rparr>)]\<rparr>"

definition example_model :: notebook_model where
  "example_model =
     \<lparr>metadata = Map.empty,
      cells = [\<lparr>cell_metadata = [''trusted'' \<mapsto> True]\<rparr>, \<lparr>cell_metadata = Map.empty\<rparr>],
      defaultKernelName = ''python3'', defaultKernelLanguage = ''python''\<rparr>"

definition trusted_model :: notebook_model where
  "trusted_model =
     \<lparr>metadata = Map.empty,
      cells = [\<lparr>cell_metadata = [''trusted'' \<mapsto> True]\<rparr>],
      defaultKernelName = ''python3'', defaultKernelLanguage = ''python''\<rparr>"

definition example_content :: active_notebook where
  "example_content = \<lparr>children = [\<lparr>editor = 0\<rparr>, \<lparr>editor = 1\<rparr>], activeCellIndex = 0\<rparr>"

definition example_panel :: notebook_panel where
  "example_panel =
     fst (new_NotebookPanel example_model (RenderMime 0) example_context (Some (MimeData 0))
            example_content)"

definition example_request :: completion_request where
  \<comment> \<open>the buffer "x\nim", cursor at the end of the second line\<close>
  "example_request = \<lparr>line = 1, ch = 2, currentValue = [0x78, 0x0A, 0x69, 0x6D]\<rparr>"

definition kernelless_panel :: notebook_panel where
  "kernelless_panel = example_panel\<lparr>p_context := Some (example_context\<lparr>kernel := None\<rparr>)\<rparr>"

definition example_info :: kernel_info where
  "example_info = \<lparr>language_info = [(''name'', ''python''), (''version'', ''3.5'')]\<rparr>"

definition example_spec :: kernel_spec where
  "example_spec = \<lparr>display_name = ''Python 3'', language = ''python''\<rparr>"

definition other_kernel :: kernel where
  "other_kernel = \<lparr>kernel_name = ''ir''\<rparr>"

definition other_info :: kernel_info where
  "other_info = \<lparr>language_info = [(''name'', ''R'')]\<rparr>"

definition other_spec :: kernel_spec where
  "other_spec = \<lparr>display_name = ''R'', language = ''R''\<rparr>"

definition example_factory :: notebook_widget_factory where
  "example_factory = \<lparr>f_rendermime = Some (RenderMime 0), f_clipboard = Some (MimeData 0)\<rparr>"

definition example_findKernel :: "string \<Rightarrow> string \<Rightarrow> kernelspecs \<Rightarrow> string" where
  \<comment> \<open>A stand-in for the imported lookup: the requested name if a spec has it, else the
      first spec's name.\<close>
  "example_findKernel kname lang specs =
     (if kname \<in> set (map fst specs) then kname
      else (case specs of [] \<Rightarrow> kname | (n, _) # _ \<Rightarrow> n))"





definition later_request :: completion_request where
  \<comment> \<open>the buffer "x\nimp", cursor at the end of the second line\<close>
  "later_request = \<lparr>line = 1, ch = 3, currentValue = [0x78, 0x0A, 0x69, 0x6D, 0x70]\<rparr>"

definition error_reply :: complete_reply where
  "error_reply = \<lparr>status = ''error'', matches = [], cursor_start = 0, cursor_end = 0\<rparr>"

definition ok_reply :: complete_reply where
  \<comment> \<open>one match, "import", for the span 0 to 2\<close>
  "ok_reply = \<lparr>status = ''ok'', matches = [[0x69, 0x6D, 0x70, 0x6F, 0x72, 0x74]],
                cursor_start = 0, cursor_end = 2\<rparr>"

section \<open>Splitting a buffer into lines\<close>

lemma js_split_not_Nil: "js_split sep s \<noteq> []"
  by (induction s) (auto split: list.splits)

lemma js_split_no_sep: "l \<in> set (js_split sep s) \<Longrightarrow> sep \<notin> set l"
  by (induction s arbitrary: l) (auto split: list.splits if_splits)

lemma js_join_Cons: "js_join sep ((c # l) # ls) = c # js_join sep (l # ls)"
  by (cases ls) simp_all

lemma js_join_Nil_Cons: "ls \<noteq> [] \<Longrightarrow> js_join sep ([] # ls) = sep # js_join sep ls"
  by (cases ls) simp_all

lemma js_join_split: "js_join sep (js_split sep s) = s"
proof (induction s)
  case Nil
  show ?case by simp
next
  case (Cons c cs)
  show ?case
  proof (cases "c = sep")
    case True
    with Cons show ?thesis by (simp add: js_join_Nil_Cons js_split_not_Nil)
  next
    case False
    obtain l ls where "js_split sep cs = l # ls"
      using js_split_not_Nil [of sep cs] by (cases "js_split sep cs") auto
    with False Cons show ?thesis by (simp add: js_join_Cons)
  qed
qed

section \<open>Disposal\<close>

text \<open>
  C9. Disposing is idempotent: the panel after two calls is the panel after one. A call
  on a disposed panel returns at once and changes nothing. The first call on a
  constructed panel clears the context, rendermime, content, toolbar, clipboard and
  completion references, disposes the completion widget once and marks the panel
  disposed (the model reference and the request counter stay); a second call then has
  no further effect.
\<close>

theorem dispose_idempotent:
  "fst (dispose (fst (dispose p))) = fst (dispose p) \<and>
   (p_isDisposed p \<longrightarrow> dispose p = (p, [], None)) \<and>
   (\<not> p_isDisposed p \<and> p_completion p \<noteq> None \<longrightarrow>
      (\<exists>p'. dispose p = (p', [CompletionDispose], None) \<and>
         p_context p' = None \<and> p_rendermime p' = None \<and> p_content p' = None \<and>
         p_toolbar p' = None \<and> p_clipboard p' = None \<and> p_completion p' = None \<and>
         p_isDisposed p' \<and> p_model p' = p_model p \<and>
         p_pendingComplete p' = p_pendingComplete p \<and>
         dispose p' = (p', [], None)))"
proof (cases "p_isDisposed p")
  case True
  then show ?thesis by (simp add: dispose_def)
next
  case False
  show ?thesis
  proof (cases "p_completion p")
    case None
    with False show ?thesis by (simp add: dispose_def)
  next
    case (Some w)
    with False show ?thesis by (simp add: dispose_def)
  qed
qed

theorem dispose_idempotent_witness:
  "\<not> p_isDisposed example_panel \<and> p_completion example_panel \<noteq> None \<and>
   p_isDisposed (fst (dispose example_panel)) \<and>
   snd (dispose example_panel) = ([CompletionDispose], None) \<and>
   dispose (fst (dispose example_panel)) = (fst (dispose example_panel), [], None)"
  using dispose_idempotent [of example_panel]
    dispose_idempotent [of "fst (dispose example_panel)"]
  by (simp add: example_panel_def new_NotebookPanel_def dispose_def)

section \<open>Restarting the kernel\<close>

text \<open>
  C5. On a panel with its document context: without a kernel, \<open>restart\<close> resolves to
  false and shows no dialog and calls nothing. With a kernel it shows exactly one
  dialog; it resolves to true exactly when the dialog's answer is the text OK, and in
  that case calls the kernel's restart once, after the dialog; for any other answer it
  resolves to false and the kernel's restart is not called.
\<close>

theorem restart_confirms_first:
  "p_context p = Some context \<Longrightarrow>
     (kernel context = None \<longrightarrow> restart p answer = Inr (False, [])) \<and>
     (kernel context \<noteq> None \<longrightarrow>
        (\<exists>tr. restart p answer = Inr (answer = ''OK'', tr) \<and>
           length (dialogs tr) = 1 \<and>
           length (kernel_restarts tr) = (if answer = ''OK'' then 1 else 0) \<and>
           (answer = ''OK'' \<longrightarrow> tr = dialogs tr @ [KernelRestart (the (kernel context))])))"
  by (auto simp: restart_def dialogs_def kernel_restarts_def)

theorem restart_confirms_first_witness:
  "p_context example_panel = Some example_context \<and>
   kernel example_context \<noteq> None \<and>
   restart example_panel ''OK'' =
     Inr (True, [ShowDialog ''Restart Kernel?'', KernelRestart example_kernel]) \<and>
   restart example_panel ''Cancel'' = Inr (False, [ShowDialog ''Restart Kernel?'']) \<and>
   p_context (example_panel\<lparr>p_context := Some (example_context\<lparr>kernel := None\<rparr>)\<rparr>) =
     Some (example_context\<lparr>kernel := None\<rparr>) \<and>
   restart (example_panel\<lparr>p_context := Some (example_context\<lparr>kernel := None\<rparr>)\<rparr>) ''OK'' =
     Inr (False, [])"
  using restart_confirms_first [of example_panel example_context "''OK''"]
    restart_confirms_first [of example_panel example_context "''Cancel''"]
    restart_confirms_first
      [of "example_panel\<lparr>p_context := Some (example_context\<lparr>kernel := None\<rparr>)\<rparr>"
          "example_context\<lparr>kernel := None\<rparr>" "''OK''"]
  by (simp add: example_panel_def new_NotebookPanel_def example_context_def restart_def)

section \<open>Trusting a notebook\<close>

lemma scan_trusted_iff:
  "scan_trusted b cs \<longleftrightarrow> b \<and> (\<forall>c\<in>set cs. cell_metadata c ''trusted'' = Some True)"
  by (induction cs arbitrary: b) auto

lemma length_trust_cells: "length (trust_cells cs) = length cs"
  by (induction cs) simp_all

lemma trust_cells_trusted:
  "c \<in> set (trust_cells cs) \<Longrightarrow> cell_metadata c ''trusted'' = Some True"
  by (induction cs) auto

lemma trust_cells_other_keys:
  "key \<noteq> ''trusted'' \<Longrightarrow>
     map (\<lambda>c. cell_metadata c key) (trust_cells cs) = map (\<lambda>c. cell_metadata c key) cs"
  by (induction cs) simp_all

text \<open>
  C6. If every cell's trusted flag is already true, \<open>trustNotebook\<close> shows no dialog
  and leaves the notebook as it is. Otherwise it shows exactly one dialog; on the answer
  OK every cell's flag is true afterwards (and there are as many cells as before), and
  on any other answer the notebook is unchanged. So the flags are updated for all cells
  or for none.
\<close>

theorem trustNotebook_all_or_nothing:
  "((\<forall>c\<in>set (cells m). cell_metadata c ''trusted'' = Some True) \<longrightarrow>
      trustNotebook m answer = (m, [])) \<and>
   (\<not> (\<forall>c\<in>set (cells m). cell_metadata c ''trusted'' = Some True) \<longrightarrow>
      snd (trustNotebook m answer) = [ShowDialog ''Trust this notebook?''] \<and>
      (answer = ''OK'' \<longrightarrow>
         (\<forall>c\<in>set (cells (fst (trustNotebook m answer))).
            cell_metadata c ''trusted'' = Some True) \<and>
         length (cells (fst (trustNotebook m answer))) = length (cells m)) \<and>
      (answer \<noteq> ''OK'' \<longrightarrow> fst (trustNotebook m answer) = m))"
  by (simp add: trustNotebook_def scan_trusted_iff length_trust_cells trust_cells_trusted)

theorem trustNotebook_all_or_nothing_witness:
  "map (\<lambda>c. cell_metadata c ''trusted'') (cells trusted_model) = [Some True] \<and>
   trustNotebook trusted_model ''OK'' = (trusted_model, []) \<and>
   \<not> (\<forall>c\<in>set (cells example_model). cell_metadata c ''trusted'' = Some True) \<and>
   snd (trustNotebook example_model ''OK'') = [ShowDialog ''Trust this notebook?''] \<and>
   map (\<lambda>c. cell_metadata c ''trusted'') (cells (fst (trustNotebook example_model ''OK''))) =
     [Some True, Some True] \<and>
   trustNotebook example_model ''Cancel'' =
     (example_model, [ShowDialog ''Trust this notebook?''])"
  using trustNotebook_all_or_nothing [of trusted_model "''OK''"]
    trustNotebook_all_or_nothing [of example_model "''OK''"]
    trustNotebook_all_or_nothing [of example_model "''Cancel''"]
  by (simp add: trusted_model_def example_model_def trustNotebook_def)

section \<open>Issuing a completion request\<close>

lemma js_index_in_set: "js_index xs i = Some x \<Longrightarrow> x \<in> set xs"
  by (auto simp: js_index_def split: if_splits)

lemma tokens_unfold:
  "map (\<lambda>i. t + Suc i) [0..<Suc n] = Suc t # map (\<lambda>i. Suc t + Suc i) [0..<n]"
  by (simp add: upt_conv_Cons map_Suc_upt [symmetric] del: upt_Suc)

lemma issue_requests_tokens:
  "p_context p = Some context \<Longrightarrow> kernel context \<noteq> None \<Longrightarrow> p_completion p \<noteq> None \<Longrightarrow>
     issue_requests p chgs =
       (p\<lparr>p_pendingComplete := p_pendingComplete p + length chgs\<rparr>,
        map (\<lambda>i. p_pendingComplete p + Suc i) [0..<length chgs])"
proof (induction chgs arbitrary: p)
  case Nil
  show ?case by simp
next
  case (Cons chg rest)
  let ?p' = "p\<lparr>p_pendingComplete := p_pendingComplete p + 1\<rparr>"
  from Cons.prems obtain k w where kw: "kernel context = Some k" "p_completion p = Some w"
    by auto
  have step: "onCompletionRequest p chg =
      (?p', [KernelComplete k \<lparr>code = js_index (js_split newline (currentValue chg)) (line chg),
                               cursor_pos = ch chg\<rparr>],
       Inr (Some \<lparr>pendingComplete = p_pendingComplete p + 1, change = chg\<rparr>))"
    using Cons.prems kw by (simp add: onCompletionRequest_def Let_def)
  have rest: "issue_requests ?p' rest =
      (?p'\<lparr>p_pendingComplete := p_pendingComplete ?p' + length rest\<rparr>,
       map (\<lambda>i. p_pendingComplete ?p' + Suc i) [0..<length rest])"
    using Cons.prems by (intro Cons.IH) simp_all
  show ?case
    using step rest tokens_unfold [of "p_pendingComplete p" "length rest"]
    by (simp del: upt_Suc)
qed

lemma sorted_wrt_tokens: "sorted_wrt (<) ((t::nat) # map (\<lambda>i. t + Suc i) [0..<n])"
  by (simp add: sorted_wrt_map del: upt_Suc)

text \<open>
  C8. On a panel with its document context: without a kernel, \<open>onCompletionRequest\<close>
  changes nothing and calls nothing. With a kernel (and the completion widget in place)
  it makes one call, \<^verbatim>\<open>kernel.complete\<close>, whose code is the line of the buffer that
  \<^verbatim>\<open>change.line\<close> addresses (a piece of the buffer without a newline, not the
  buffer) and whose cursor position is \<^verbatim>\<open>change.ch\<close>; the counter goes up by exactly
  one and the closure captures the new value together with the change. Over any run of
  requests the captured tokens are strictly increasing, one per request.
\<close>

theorem onCompletionRequest_issues:
  "p_context p = Some context \<Longrightarrow>
     (kernel context = None \<longrightarrow> onCompletionRequest p chg = (p, [], Inr None)) \<and>
     (kernel context \<noteq> None \<and> p_completion p \<noteq> None \<longrightarrow>
        (\<exists>contents pc.
           onCompletionRequest p chg =
             (p\<lparr>p_pendingComplete := p_pendingComplete p + 1\<rparr>,
              [KernelComplete (the (kernel context)) contents], Inr (Some pc)) \<and>
           code contents = js_index (js_split newline (currentValue chg)) (line chg) \<and>
           (\<forall>l. code contents = Some l \<longrightarrow> newline \<notin> set l) \<and>
           cursor_pos contents = ch chg \<and>
           pendingComplete pc = p_pendingComplete p + 1 \<and> change pc = chg) \<and>
        sorted_wrt (<) (p_pendingComplete p # snd (issue_requests p chgs)) \<and>
        length (snd (issue_requests p chgs)) = length chgs)"
proof (intro conjI impI)
  assume c: "p_context p = Some context" and "kernel context = None"
  then show "onCompletionRequest p chg = (p, [], Inr None)"
    by (simp add: onCompletionRequest_def)
next
  assume c: "p_context p = Some context" and kw: "kernel context \<noteq> None \<and> p_completion p \<noteq> None"
  have "\<forall>l. js_index (js_split newline (currentValue chg)) (line chg) = Some l \<longrightarrow>
      newline \<notin> set l"
    by (metis js_index_in_set js_split_no_sep)
  with c kw show "\<exists>contents pc.
           onCompletionRequest p chg =
             (p\<lparr>p_pendingComplete := p_pendingComplete p + 1\<rparr>,
              [KernelComplete (the (kernel context)) contents], Inr (Some pc)) \<and>
           code contents = js_index (js_split newline (currentValue chg)) (line chg) \<and>
           (\<forall>l. code contents = Some l \<longrightarrow> newline \<notin> set l) \<and>
           cursor_pos contents = ch chg \<and>
           pendingComplete pc = p_pendingComplete p + 1 \<and> change pc = chg"
    by (auto simp: onCompletionRequest_def Let_def)
  have tok: "snd (issue_requests p chgs) = map (\<lambda>i. p_pendingComplete p + Suc i) [0..<length chgs]"
    using issue_requests_tokens [of p "context" chgs] c kw by simp
  show "sorted_wrt (<) (p_pendingComplete p # snd (issue_requests p chgs))"
    unfolding tok by (rule sorted_wrt_tokens)
  show "length (snd (issue_requests p chgs)) = length chgs"
    unfolding tok by simp
qed

theorem onCompletionRequest_issues_witness:
  "p_context example_panel = Some example_context \<and> kernel example_context \<noteq> None \<and>
   p_completion example_panel \<noteq> None \<and>
   onCompletionRequest example_panel example_request =
     (example_panel\<lparr>p_pendingComplete := 1\<rparr>,
      [KernelComplete example_kernel \<lparr>code = Some [0x69, 0x6D], cursor_pos = 2\<rparr>],
      Inr (Some \<lparr>pendingComplete = 1, change = example_request\<rparr>)) \<and>
   snd (issue_requests example_panel [example_request, example_request]) = [1, 2] \<and>
   p_context kernelless_panel = Some (example_context\<lparr>kernel := None\<rparr>) \<and>
   kernel (example_context\<lparr>kernel := None\<rparr>) = None \<and>
   onCompletionRequest kernelless_panel example_request = (kernelless_panel, [], Inr None)"
  using onCompletionRequest_issues
      [of example_panel example_context example_request "[example_request, example_request]"]
    onCompletionRequest_issues
      [of kernelless_panel "example_context\<lparr>kernel := None\<rparr>" example_request "[]"]
  by (simp add: kernelless_panel_def example_panel_def new_NotebookPanel_def
      example_context_def example_request_def onCompletionRequest_def createCompletion_def
      js_index_def newline_def Let_def)

section \<open>Kernel metadata\<close>

text \<open>
  C7. When the context has a kernel, the listener on \<^verbatim>\<open>kernelChanged\<close> and the
  constructor both issue the two queries, kernel info and kernel spec, and write nothing
  themselves. The two callbacks write \<^verbatim>\<open>language_info\<close> and \<^verbatim>\<open>kernelspec\<close> into the
  notebook's metadata; each leaves the other key alone, and they give the same store in
  either order. Replies for a later kernel, handled afterwards, replace both values.
\<close>

theorem kernel_metadata_written:
  "(kernel context = Some k \<longrightarrow>
      kernelChanged_slot context = Inr [KernelInfo k, GetKernelSpec k] \<and>
      take 2 (snd (new_NotebookPanel m rm context cb content)) =
        [KernelInfo k, GetKernelSpec k]) \<and>
   (p_model p = Some nb \<longrightarrow>
      (\<exists>p1 q1 p2 p3 p4.
         kernelInfo_then p info = Inr p1 \<and> getKernelSpec_then p1 k spec = Inr p2 \<and>
         getKernelSpec_then p k spec = Inr q1 \<and> kernelInfo_then q1 info = Inr p2 \<and>
         panel_metadata p1 ''kernelspec'' = panel_metadata p ''kernelspec'' \<and>
         panel_metadata q1 ''language_info'' = panel_metadata p ''language_info'' \<and>
         p_model p2 =
           Some (nb\<lparr>metadata := (metadata nb)
              (''language_info'' \<mapsto> LanguageInfo (language_info info),
               ''kernelspec'' \<mapsto>
                 KernelSpec (kernel_name k) (display_name spec) (language spec))\<rparr>) \<and>
         kernelInfo_then p2 info' = Inr p3 \<and> getKernelSpec_then p3 k' spec' = Inr p4 \<and>
         panel_metadata p4 ''language_info'' = Some (LanguageInfo (language_info info')) \<and>
         panel_metadata p4 ''kernelspec'' =
           Some (KernelSpec (kernel_name k') (display_name spec') (language spec'))))"
  by (auto simp: kernelChanged_slot_def handleKernelChange_def new_NotebookPanel_def
      kernelInfo_then_def getKernelSpec_then_def panel_metadata_def fun_upd_twist)

theorem kernel_metadata_written_witness:
  "kernel example_context = Some example_kernel \<and>
   kernelChanged_slot example_context =
     Inr [KernelInfo example_kernel, GetKernelSpec example_kernel] \<and>
   p_model example_panel = Some example_model \<and>
   map_sum id (\<lambda>p. (panel_metadata p ''language_info'', panel_metadata p ''kernelspec''))
     (kernelInfo_then example_panel example_info) =
     Inr (Some (LanguageInfo [(''name'', ''python''), (''version'', ''3.5'')]), None) \<and>
   map_sum id (\<lambda>p. (panel_metadata p ''language_info'', panel_metadata p ''kernelspec''))
     (getKernelSpec_then example_panel example_kernel example_spec) =
     Inr (None, Some (KernelSpec ''python3'' ''Python 3'' ''python''))"
  using kernel_metadata_written
      [of example_context example_kernel example_model "RenderMime 0" "Some (MimeData 0)"
          example_content example_panel example_model example_info example_spec
          other_info other_kernel other_spec]
  by (simp add: example_context_def example_panel_def new_NotebookPanel_def
      kernelChanged_slot_def handleKernelChange_def kernelInfo_then_def
      getKernelSpec_then_def panel_metadata_def example_model_def example_info_def
      example_spec_def example_kernel_def)

section \<open>The widget factory\<close>

text \<open>
  C10. \<open>beforeClose\<close> resolves to true for every model, context and widget, and calls
  nothing. On a factory that holds its rendermime, \<open>createNew\<close> calls
  \<^verbatim>\<open>context.changeKernel\<close> exactly once, before the panel is constructed: with the
  kernel id it was given, or else with the name that \<^verbatim>\<open>findKernel\<close> returns for the
  model's default kernel name and language and the context's kernel specs.
\<close>

theorem createNew_changes_kernel_once:
  "fst (beforeClose m context' widget) = True \<and> snd (beforeClose m context' widget) = [] \<and>
   (f_rendermime f \<noteq> None \<longrightarrow>
      (\<exists>panel tr made.
         createNew f findKernel content m context k = Inr (panel, tr) \<and>
         kernel_changes tr =
           [ChangeKernel
              (case k of
                 Some kid \<Rightarrow> kid
               | None \<Rightarrow>
                   \<lparr>id_of = None,
                    name_of = Some (findKernel (defaultKernelName m) (defaultKernelLanguage m)
                                      (kernelspecs context))\<rparr>)] \<and>
         kernel_changes (before_construct tr) = kernel_changes tr \<and>
         Construct made \<in> set tr \<and>
         (panel, made) = new_NotebookPanel m (the (f_rendermime f)) context (f_clipboard f) content))"
  by (auto simp: beforeClose_def createNew_def kernel_changes_def before_construct_def
      split: prod.splits option.splits)

theorem createNew_changes_kernel_once_witness:
  "f_rendermime example_factory \<noteq> None \<and>
   map_sum id snd (createNew example_factory example_findKernel example_content example_model
      example_context None) =
     Inr [RendermimeClone, ChangeKernel \<lparr>id_of = None, name_of = Some ''python3''\<rparr>,
          Construct [KernelInfo example_kernel, GetKernelSpec example_kernel,
                     Connect 0 TextChanged OnTextChange,
                     Connect 0 CompletionRequested OnCompletionRequest],
          PopulateDefaults] \<and>
   map_sum id snd (createNew example_factory example_findKernel example_content example_model
      example_context (Some \<lparr>id_of = Some ''abc'', name_of = None\<rparr>)) =
     Inr [RendermimeClone, ChangeKernel \<lparr>id_of = Some ''abc'', name_of = None\<rparr>,
          Construct [KernelInfo example_kernel, GetKernelSpec example_kernel,
                     Connect 0 TextChanged OnTextChange,
                     Connect 0 CompletionRequested OnCompletionRequest],
          PopulateDefaults] \<and>
   beforeClose example_model example_context example_panel = (True, [])"
  using createNew_changes_kernel_once
      [of example_model example_context example_panel example_factory example_findKernel
          example_content example_context None]
    createNew_changes_kernel_once
      [of example_model example_context example_panel example_factory example_findKernel
          example_content example_context "Some \<lparr>id_of = Some ''abc'', name_of = None\<rparr>"]
  by (simp add: example_factory_def createNew_def new_NotebookPanel_def example_findKernel_def
      example_model_def example_context_def example_content_def handleKernelChange_def
      childAt_def js_index_def beforeClose_def)

section \<open>Text changes\<close>

text \<open>
  On a panel with its completion widget, for a change whose line index addresses a line
  of the new buffer: when the character before the cursor exists and is not whitespace,
  \<open>current\<close> becomes the change if \<open>original\<close> is set, and nothing changes if
  \<open>original\<close> is absent; when that character is absent or whitespace, \<open>options\<close>,
  \<open>original\<close> and \<open>cursor\<close> are absent afterwards. No call is made in any case.
\<close>

lemma onTextChange_refresh:
  "p_completion p = Some w \<Longrightarrow>
   js_index (js_split newline (newValue chg)) (line chg) = Some l \<Longrightarrow>
   js_index l (ch chg - 1) = Some c \<Longrightarrow> \<not> is_whitespace c \<Longrightarrow>
     onTextChange p chg =
       (if original (model w) \<noteq> None
        then Inr (p\<lparr>p_completion := Some (w\<lparr>model := (model w)\<lparr>current := Some chg\<rparr>\<rparr>)\<rparr>, [])
        else Inr (p, []))"
  by (simp add: onTextChange_def)

lemma onTextChange_clears:
  "p_completion p = Some w \<Longrightarrow>
   js_index (js_split newline (newValue chg)) (line chg) = Some l \<Longrightarrow>
   js_index l (ch chg - 1) = None \<or>
     (\<exists>c. js_index l (ch chg - 1) = Some c \<and> is_whitespace c) \<Longrightarrow>
     \<exists>m'. onTextChange p chg = Inr (p\<lparr>p_completion := Some (w\<lparr>model := m'\<rparr>)\<rparr>, []) \<and>
       options m' = None \<and> original m' = None \<and> cursor m' = None"
  by (auto simp: onTextChange_def reset_completion_def)


section \<open>Replies to completion requests\<close>

text \<open>
  The first callback leaves the model alone when it bails, and sets \<open>options\<close> and
  \<open>cursor\<close> otherwise, before the second callback sets \<open>original\<close>. The second
  callback is chained with \<^verbatim>\<open>then\<close> on the first, so it also runs after the first
  has bailed.
\<close>

lemma discarded_then1: "discarded now pc value m \<Longrightarrow> complete_then1 now pc value m = m"
  by (auto simp: discarded_def complete_then1_def)

lemma discarded_reply_handler:
  "discarded now pc value m \<Longrightarrow>
     complete_reply_handler now pc value m = m\<lparr>original := Some (change pc)\<rparr>"
  by (simp add: complete_reply_handler_def discarded_then1 complete_then2_def)

lemma accepted_then1:
  "\<not> discarded now pc value m \<Longrightarrow>
     complete_then1 now pc value m =
       m\<lparr>options := Some (matches value),
         cursor := Some \<lparr>span_start = cursor_start value, span_end = cursor_end value\<rparr>\<rparr>"
  by (auto simp: discarded_def complete_then1_def)

lemma accepted_reply_order:
  "\<not> discarded now pc value m \<Longrightarrow>
     options (complete_then1 now pc value m) = Some (matches value) \<and>
     original (complete_then1 now pc value m) = original m \<and>
     original (complete_reply_handler now pc value m) = Some (change pc) \<and>
     options (complete_reply_handler now pc value m) = Some (matches value)"
  by (simp add: accepted_then1 complete_reply_handler_def complete_then2_def)

text \<open>
  C1 says that a reply which is dropped changes no property of the completion state.
  The code departs from it. On the panel just constructed a request is issued with
  token 1, and the kernel answers with status \<^verbatim>\<open>error\<close> while that token is still
  the current one: the first callback bails, and the second one sets \<open>original\<close> to
  the request, which was absent before.
\<close>

theorem discarded_reply_sets_original:
  "onCompletionRequest example_panel example_request =
     (example_panel\<lparr>p_pendingComplete := 1\<rparr>,
      [KernelComplete example_kernel \<lparr>code = Some [0x69, 0x6D], cursor_pos = 2\<rparr>],
      Inr (Some \<lparr>pendingComplete = 1, change = example_request\<rparr>)) \<and>
   p_completion (example_panel\<lparr>p_pendingComplete := 1\<rparr>) =
     Some \<lparr>model = \<lparr>options = None, original = None, current = None, cursor = None,
                     isDisposed = False\<rparr>\<rparr> \<and>
   p_completion (onCompletionReply (example_panel\<lparr>p_pendingComplete := 1\<rparr>)
       \<lparr>pendingComplete = 1, change = example_request\<rparr> error_reply) =
     Some \<lparr>model = \<lparr>options = None, original = Some example_request, current = None,
                     cursor = None, isDisposed = False\<rparr>\<rparr>"
  by (simp add: onCompletionRequest_def onCompletionReply_def example_panel_def
      new_NotebookPanel_def example_context_def example_request_def createCompletion_def
      empty_completion_model_def error_reply_def complete_reply_handler_def
      complete_then1_def complete_then2_def js_index_def newline_def Let_def)

text \<open>
  C2 says that \<open>original\<close> is never set without \<open>options\<close> having been filled from
  the same reply. The code departs from it, by the same chained callback. Two requests
  are issued, with tokens 1 and 2; the reply to the first arrives, with status
  \<^verbatim>\<open>ok\<close>, after the second was issued: it is stale, \<open>options\<close> stays absent, and
  \<open>original\<close> is set to the first request all the same.
\<close>

theorem stale_reply_sets_original_without_options:
  "fst (issue_requests example_panel [example_request, later_request]) =
     example_panel\<lparr>p_pendingComplete := 2\<rparr> \<and>
   snd (issue_requests example_panel [example_request, later_request]) = [1, 2] \<and>
   p_completion (onCompletionReply (example_panel\<lparr>p_pendingComplete := 2\<rparr>)
       \<lparr>pendingComplete = 1, change = example_request\<rparr> ok_reply) =
     Some \<lparr>model = \<lparr>options = None, original = Some example_request, current = None,
                     cursor = None, isDisposed = False\<rparr>\<rparr>"
  by (simp add: onCompletionRequest_def onCompletionReply_def example_panel_def
      new_NotebookPanel_def example_context_def createCompletion_def
      empty_completion_model_def ok_reply_def complete_reply_handler_def
      complete_then1_def complete_then2_def Let_def)

section \<open>Rebinding the active cell\<close>

text \<open>
  When both lookups find a cell, the handler disconnects the two signals of the old
  cell's editor and connects the two of the new cell's editor, each once. The
  constructor checks the cell before it connects.
\<close>

lemma rebind_present_cells:
  "p_content p = Some content \<Longrightarrow> childAt content old = Some c \<Longrightarrow>
   childAt content new = Some c' \<Longrightarrow>
     onContentChanged p \<lparr>args_name = ''activeCellIndex'', args_oldValue = old, args_newValue = new\<rparr> =
       ([Disconnect (editor c) TextChanged OnTextChange,
         Disconnect (editor c) CompletionRequested OnCompletionRequest,
         Connect (editor c') TextChanged OnTextChange,
         Connect (editor c') CompletionRequested OnCompletionRequest], None)"
  by (simp add: onContentChanged_def)

lemma constructor_skips_missing_cell:
  "childAt content (activeCellIndex content) = None \<Longrightarrow> kernel context = None \<Longrightarrow>
     snd (new_NotebookPanel m rm context cb content) = []"
  by (simp add: new_NotebookPanel_def)

text \<open>
  C4 says that the rebind does not raise when a lookup finds no cell. The code departs
  from it: the handler reads the editor of the cell without a check. The content has
  two cells, so index 2 is out of range. With 2 as the old index the handler raises
  before it does anything; with 2 as the new index it raises after it has disconnected
  the old cell's editor, and connects nothing.
\<close>

theorem rebind_missing_cell_raises:
  "p_content example_panel = Some example_content \<and>
   childAt example_content 2 = None \<and>
   onContentChanged example_panel
     \<lparr>args_name = ''activeCellIndex'', args_oldValue = 2, args_newValue = 0\<rparr> =
     ([], Some TypeError) \<and>
   onContentChanged example_panel
     \<lparr>args_name = ''activeCellIndex'', args_oldValue = 0, args_newValue = 2\<rparr> =
     ([Disconnect 0 TextChanged OnTextChange,
       Disconnect 0 CompletionRequested OnCompletionRequest], Some TypeError)"
  by (simp add: onContentChanged_def example_panel_def new_NotebookPanel_def
      example_content_def childAt_def js_index_def)

end
